theory Spec2Isabelle
  imports Complex_Main
begin

section \<open>Data model of \<^verbatim>\<open>app.py\<close>\<close>

text \<open>
  The script is a Streamlit page. Its logic is the block guarded by
  \<^verbatim>\<open>if submitted:\<close> (lines 129-168) together with \<^verbatim>\<open>load_assets\<close> (lines 42-51).
  Exceptions are values of type \<open>error\<close>; a computation that may raise returns
  \<open>error + 'a\<close> with \<open>Inl\<close> for the exception.

  Python integers are \<open>int\<close>. Python floats are values of type \<open>pyfloat\<close> below.
\<close>

datatype error =
    AssetLoadFailure    \<comment> \<open>\<^verbatim>\<open>joblib.load\<close> failed\<close>
  | KeyError            \<comment> \<open>\<^verbatim>\<open>encoders[col]\<close> on a missing key\<close>
  | UnknownCategory     \<comment> \<open>\<^verbatim>\<open>transform\<close> on a label the encoder was not fitted on\<close>
  | ScorerFailure       \<comment> \<open>\<^verbatim>\<open>predict\<close> or \<^verbatim>\<open>predict_proba\<close> raised\<close>
  | ValueError          \<comment> \<open>\<^verbatim>\<open>list.index\<close> on an absent element\<close>
  | IndexError          \<comment> \<open>\<^verbatim>\<open>proba[i]\<close> out of range\<close>

text \<open>
  A Python float (an IEEE-754 double): a number, an infinity or NaN. Every finite double
  is a real number, so \<open>Finite\<close> carries a real; the type has more finite values than the
  doubles, never fewer.
\<close>

datatype pyfloat = Finite real | PosInf | NegInf | NaN

text \<open>
  The comparison \<^verbatim>\<open>a < b\<close> on floats is exact on the values, and false as soon as one
  side is NaN.
\<close>

fun float_lt :: "pyfloat \<Rightarrow> pyfloat \<Rightarrow> bool" where
  "float_lt NaN b = False"
| "float_lt a NaN = False"
| "float_lt (Finite x) (Finite y) = (x < y)"
| "float_lt (Finite x) PosInf = True"
| "float_lt (Finite x) NegInf = False"
| "float_lt PosInf b = False"
| "float_lt NegInf NegInf = False"
| "float_lt NegInf b = True"

text \<open>
  The builtins \<^verbatim>\<open>max(a, b)\<close> and \<^verbatim>\<open>min(a, b)\<close>: the first argument is kept unless the
  second is strictly greater (\<^verbatim>\<open>b > a\<close>), respectively strictly smaller (\<^verbatim>\<open>b < a\<close>).
\<close>

definition py_max :: "pyfloat \<Rightarrow> pyfloat \<Rightarrow> pyfloat" where
  "py_max a b = (if float_lt a b then b else a)"

definition py_min :: "pyfloat \<Rightarrow> pyfloat \<Rightarrow> pyfloat" where
  "py_min a b = (if float_lt b a then b else a)"

text \<open>
  Float subtraction and multiplication round their results. The rounding is not modelled:
  the two operations are a parameter of every function that computes with floats, and
  what is proved holds for every choice of them, the IEEE-754 operations included.
\<close>

record float_arith =
  float_sub :: "pyfloat \<Rightarrow> pyfloat \<Rightarrow> pyfloat"
  float_mul :: "pyfloat \<Rightarrow> pyfloat \<Rightarrow> pyfloat"

text \<open>The eight widget values of the form \<^verbatim>\<open>risk_form\<close> (lines 86-96).\<close>

record applicant =
  age :: int
  sex :: string
  job :: int
  housing :: string
  saving_accounts :: string
  checking_account :: string
  credit_amount :: int
  duration :: int

text \<open>
  The domains the widgets enforce: \<^verbatim>\<open>number_input\<close> bounds and \<^verbatim>\<open>selectbox\<close> options.
\<close>

definition sex_options :: "string list" where
  "sex_options = [''male'', ''female'']"

definition housing_options :: "string list" where
  "housing_options = [''own'', ''rent'', ''free'']"

definition saving_options :: "string list" where
  "saving_options = [''little'', ''moderate'', ''rich'', ''quite rich'']"

definition checking_options :: "string list" where
  "checking_options = [''little'', ''moderate'', ''rich'']"

definition valid_applicant :: "applicant \<Rightarrow> bool" where
  "valid_applicant a =
     (18 \<le> age a \<and> age a \<le> 80 \<and>
      sex a \<in> set sex_options \<and>
      0 \<le> job a \<and> job a \<le> 3 \<and>
      housing a \<in> set housing_options \<and>
      saving_accounts a \<in> set saving_options \<and>
      checking_account a \<in> set checking_options \<and>
      1 \<le> credit_amount a \<and>
      1 \<le> duration a)"

text \<open>
  A one-row \<^verbatim>\<open>pandas.DataFrame\<close> built from a dict literal: the columns in insertion
  order, each a name and its list of cell values.
\<close>

type_synonym dataframe = "(string \<times> int list) list"

text \<open>
  A fitted label encoder is an asset loaded from a \<^verbatim>\<open>.pkl\<close> file that is not part of the
  source; it is a parameter of the model: a finite table from the labels it was fitted on
  to their integer codes. \<^verbatim>\<open>enc.transform([y])[0]\<close> is the code of \<open>y\<close>, and raises on a
  label outside the table (scikit-learn's \<^verbatim>\<open>ValueError\<close> for previously unseen labels,
  here \<open>UnknownCategory\<close>).
\<close>

type_synonym label_encoder = "string \<rightharpoonup> int"

definition transform :: "label_encoder \<Rightarrow> string \<Rightarrow> error + int" where
  "transform enc y = (case enc y of None \<Rightarrow> Inl UnknownCategory | Some c \<Rightarrow> Inr c)"

text \<open>The dict \<^verbatim>\<open>encoders\<close>: column name to encoder.\<close>

type_synonym encoder_bank = "string \<rightharpoonup> label_encoder"

text \<open>
  The classifier is the other asset: an object with \<^verbatim>\<open>predict\<close>, \<^verbatim>\<open>classes_\<close> (the
  field \<open>classes\<close>) and, optionally, \<^verbatim>\<open>predict_proba\<close>:
  \<^verbatim>\<open>hasattr(model, "predict_proba")\<close> is \<open>predict_proba m \<noteq> None\<close>. \<open>predict m df\<close>
  stands for \<^verbatim>\<open>model.predict(df)[0]\<close> and the function under \<open>predict_proba\<close> for
  \<^verbatim>\<open>model.predict_proba(df)[0]\<close>; either call may raise. Class labels are integers.
\<close>

record scorer =
  predict :: "dataframe \<Rightarrow> error + int"
  predict_proba :: "(dataframe \<Rightarrow> error + pyfloat list) option"
  classes :: "int list"    \<comment> \<open>\<^verbatim>\<open>model.classes_\<close>\<close>

text \<open>
  What a run does to the outside: calls of the encoders and of the classifier, in order.
\<close>

datatype event =
    Transform string string    \<comment> \<open>encoder name, label\<close>
  | Predict dataframe
  | PredictProba dataframe

type_synonym 'a run = "event list \<times> (error + 'a)"

definition return :: "'a \<Rightarrow> 'a run" where
  "return x = ([], Inr x)"

definition raise :: "error \<Rightarrow> 'a run" where
  "raise e = ([], Inl e)"

text \<open>Sequencing of statements: an exception ends the run, the calls made so far stay.\<close>

definition and_then :: "'a run \<Rightarrow> ('a \<Rightarrow> 'b run) \<Rightarrow> 'b run" where
  "and_then m f =
     (case m of
        (t, Inl e) \<Rightarrow> (t, Inl e)
      | (t, Inr x) \<Rightarrow> (case f x of (t', r) \<Rightarrow> (t @ t', r)))"

section \<open>Loading the assets\<close>

definition model_file :: string where
  "model_file = ''extra_trees_credit_modelo.pkl''"

definition encoder_cols :: "string list" where
  "encoder_cols = [''Sex'', ''Housing'', ''Saving accounts'', ''Checking account'']"

definition encoder_file :: "string \<Rightarrow> string" where
  "encoder_file col = col @ ''_encoder.pkl''"

text \<open>
  The dict comprehension of \<^verbatim>\<open>load_assets\<close>: one \<^verbatim>\<open>joblib.load\<close> per column name, in
  list order; the first failing load ends it. \<open>load_encoder\<close> is \<^verbatim>\<open>joblib.load\<close> on an
  encoder file, \<open>load_model\<close> on the classifier file.
\<close>

fun load_encoders ::
  "(string \<Rightarrow> error + label_encoder) \<Rightarrow> string list \<Rightarrow> encoder_bank \<Rightarrow> error + encoder_bank"
where
  "load_encoders load_encoder [] d = Inr d"
| "load_encoders load_encoder (col # cols) d =
     (case load_encoder (encoder_file col) of
        Inl e \<Rightarrow> Inl e
      | Inr enc \<Rightarrow> load_encoders load_encoder cols (d(col \<mapsto> enc)))"

definition load_assets ::
  "(string \<Rightarrow> error + scorer) \<Rightarrow> (string \<Rightarrow> error + label_encoder)
     \<Rightarrow> error + (scorer \<times> encoder_bank)"
where
  "load_assets load_model load_encoder =
     (case load_model model_file of
        Inl e \<Rightarrow> Inl e
      | Inr m \<Rightarrow>
          (case load_encoders load_encoder encoder_cols Map.empty of
             Inl e \<Rightarrow> Inl e
           | Inr encoders \<Rightarrow> Inr (m, encoders)))"

section \<open>Feature assembly\<close>

text \<open>\<^verbatim>\<open>encoders[col].transform([v])[0]\<close>\<close>

definition encode :: "encoder_bank \<Rightarrow> string \<Rightarrow> string \<Rightarrow> int run" where
  "encode encoders col v =
     (case encoders col of
        None \<Rightarrow> raise KeyError
      | Some enc \<Rightarrow> ([Transform col v], transform enc v))"

text \<open>
  Lines 130-139. The values of the dict literal are evaluated top to bottom, so the four
  encoder calls happen in the order Sex, Housing, Saving accounts, Checking account, and
  the frame exists only when all four returned.
\<close>

definition input_df :: "encoder_bank \<Rightarrow> applicant \<Rightarrow> dataframe run" where
  "input_df encoders a =
     and_then (encode encoders ''Sex'' (sex a)) (\<lambda>sex_code.
     and_then (encode encoders ''Housing'' (housing a)) (\<lambda>housing_code.
     and_then (encode encoders ''Saving accounts'' (saving_accounts a)) (\<lambda>saving_code.
     and_then (encode encoders ''Checking account'' (checking_account a)) (\<lambda>checking_code.
     return
       [(''Age'', [age a]),
        (''Sex'', [sex_code]),
        (''Job'', [job a]),
        (''Housing'', [housing_code]),
        (''Saving accounts'', [saving_code]),
        (''Checking account'', [checking_code]),
        (''Credit amount'', [credit_amount a]),
        (''Duration'', [duration a])]))))"

section \<open>Inference and interpretation\<close>

text \<open>\<^verbatim>\<open>list(xs).index(x)\<close>: the first position of \<open>x\<close>.\<close>

fun index :: "int list \<Rightarrow> int \<Rightarrow> error + nat" where
  "index [] x = Inl ValueError"
| "index (y # ys) x =
     (if y = x then Inr 0
      else (case index ys x of Inl e \<Rightarrow> Inl e | Inr i \<Rightarrow> Inr (Suc i)))"

text \<open>\<^verbatim>\<open>proba[i]\<close> for \<open>i \<ge> 0\<close>\<close>

definition getitem :: "pyfloat list \<Rightarrow> nat \<Rightarrow> error + pyfloat" where
  "getitem proba i = (if i < length proba then Inr (proba ! i) else Inl IndexError)"

text \<open>The script's variables after line 152.\<close>

record scores =
  pred :: int
  proba_good :: "pyfloat option"
  proba_bad :: "pyfloat option"

text \<open>
  Line 150:
  \<^verbatim>\<open>float(proba[list(model.classes_).index(1)]) if 1 in model.classes_ else None\<close>
\<close>

definition good_entry :: "int list \<Rightarrow> pyfloat list \<Rightarrow> error + pyfloat option" where
  "good_entry cs proba =
     (if 1 \<in> set cs then
        (case index cs 1 of
           Inl e \<Rightarrow> Inl e
         | Inr i \<Rightarrow> (case getitem proba i of Inl e \<Rightarrow> Inl e | Inr p \<Rightarrow> Inr (Some p)))
      else Inr None)"

text \<open>
  Lines 144-152. Without \<^verbatim>\<open>predict_proba\<close> the name \<^verbatim>\<open>proba_good\<close> stays unbound, which
  is \<open>None\<close> here; it is read only when \<^verbatim>\<open>proba_bad\<close> is not \<^verbatim>\<open>None\<close>. Line 152,
  \<^verbatim>\<open>proba_bad = 1 - proba_good\<close>, is the float subtraction from \<^verbatim>\<open>1.0\<close>.
\<close>

definition probabilities ::
  "float_arith \<Rightarrow> scorer \<Rightarrow> dataframe \<Rightarrow> (pyfloat option \<times> pyfloat option) run"
where
  "probabilities fl m df =
     (case predict_proba m of
        None \<Rightarrow> return (None, None)
      | Some f \<Rightarrow>
          and_then ([PredictProba df], f df) (\<lambda>proba.
          (case good_entry (classes m) proba of
             Inl e \<Rightarrow> raise e
           | Inr None \<Rightarrow> return (None, None)
           | Inr (Some g) \<Rightarrow> return (Some g, Some (float_sub fl (Finite 1) g)))))"

text \<open>Lines 141-152.\<close>

definition infer :: "float_arith \<Rightarrow> scorer \<Rightarrow> dataframe \<Rightarrow> scores run" where
  "infer fl m df =
     and_then ([Predict df], predict m df) (\<lambda>l.
     and_then (probabilities fl m df) (\<lambda>(g, b).
     return \<lparr>pred = l, proba_good = g, proba_bad = b\<rparr>))"

section \<open>Display\<close>

datatype verdict = GOOD | BAD

text \<open>Lines 155-158.\<close>

definition verdict_of :: "int \<Rightarrow> verdict" where
  "verdict_of l = (if l = 1 then GOOD else BAD)"

text \<open>\<^verbatim>\<open>min(max(proba_good, 0.0), 1.0)\<close>\<close>

definition clamp01 :: "pyfloat \<Rightarrow> pyfloat" where
  "clamp01 p = py_min (py_max p (Finite 0)) (Finite 1)"

text \<open>
  What the result column shows (lines 155-168). The metrics hold the numbers before
  string formatting; \<open>good_percent\<close> is the float product \<^verbatim>\<open>proba_good*100\<close> and
  \<open>progress\<close> the argument passed to \<^verbatim>\<open>st.progress\<close>, both present only when
  \<^verbatim>\<open>proba_bad\<close> is not \<^verbatim>\<open>None\<close>.
\<close>

record panel =
  verdict :: verdict
  credit_metric :: int
  duration_metric :: int
  good_percent :: "pyfloat option"
  progress :: "pyfloat option"
  encoded_input :: dataframe

definition display :: "float_arith \<Rightarrow> applicant \<Rightarrow> dataframe \<Rightarrow> scores \<Rightarrow> panel" where
  "display fl a df s =
     \<lparr>verdict = verdict_of (pred s),
      credit_metric = credit_amount a,
      duration_metric = duration a,
      good_percent =
        (case proba_bad s of
           None \<Rightarrow> None
         | Some b \<Rightarrow> map_option (\<lambda>g. float_mul fl g (Finite 100)) (proba_good s)),
      progress =
        (case proba_bad s of
           None \<Rightarrow> None
         | Some b \<Rightarrow> map_option clamp01 (proba_good s)),
      encoded_input = df\<rparr>"

text \<open>The whole \<^verbatim>\<open>if submitted:\<close> block.\<close>

definition on_submit ::
  "float_arith \<Rightarrow> scorer \<Rightarrow> encoder_bank \<Rightarrow> applicant \<Rightarrow> (scores \<times> panel) run"
where
  "on_submit fl m encoders a =
     and_then (input_df encoders a) (\<lambda>df.
     and_then (infer fl m df) (\<lambda>s.
     return (s, display fl a df s)))"

definition result_column ::
  "float_arith \<Rightarrow> bool \<Rightarrow> scorer \<Rightarrow> encoder_bank \<Rightarrow> applicant
     \<Rightarrow> (scores \<times> panel) option run"
where
  "result_column fl submitted m encoders a =
     (if submitted then and_then (on_submit fl m encoders a) (\<lambda>r. return (Some r))
      else return None)"

section \<open>Vocabulary of the properties\<close>

text \<open>The code that column \<open>col\<close>'s encoder assigns to label \<open>v\<close>, if it has one.\<close>

definition code_of :: "encoder_bank \<Rightarrow> string \<Rightarrow> string \<Rightarrow> int option" where
  "code_of encoders col v = (case encoders col of None \<Rightarrow> None | Some enc \<Rightarrow> enc v)"

text \<open>Label \<open>v\<close> is in the fitted vocabulary of column \<open>col\<close>'s encoder.\<close>

definition in_vocabulary :: "encoder_bank \<Rightarrow> string \<Rightarrow> string \<Rightarrow> bool" where
  "in_vocabulary encoders col v =
     (case encoders col of None \<Rightarrow> False | Some enc \<Rightarrow> enc v \<noteq> None)"

text \<open>The dict holds an encoder under each of the four keys, as \<^verbatim>\<open>load_assets\<close> builds it.\<close>

definition has_all_encoders :: "encoder_bank \<Rightarrow> bool" where
  "has_all_encoders encoders = list_all (\<lambda>col. encoders col \<noteq> None) encoder_cols"

text \<open>Every option a \<^verbatim>\<open>selectbox\<close> offers is in the vocabulary of its column's encoder.\<close>

definition fitted_on_form :: "encoder_bank \<Rightarrow> bool" where
  "fitted_on_form encoders =
     (list_all (in_vocabulary encoders ''Sex'') sex_options \<and>
      list_all (in_vocabulary encoders ''Housing'') housing_options \<and>
      list_all (in_vocabulary encoders ''Saving accounts'') saving_options \<and>
      list_all (in_vocabulary encoders ''Checking account'') checking_options)"

text \<open>The widget value that lines 132-136 pass to column \<open>col\<close>'s encoder.\<close>

definition field_of :: "string \<Rightarrow> applicant \<Rightarrow> string" where
  "field_of col a =
     (if col = ''Sex'' then sex a
      else if col = ''Housing'' then housing a
      else if col = ''Saving accounts'' then saving_accounts a
      else checking_account a)"

text \<open>The calls in a run that go to the classifier, and those that go to an encoder.\<close>

fun is_scorer_call :: "event \<Rightarrow> bool" where
  "is_scorer_call (Transform col v) = False"
| "is_scorer_call (Predict df) = True"
| "is_scorer_call (PredictProba df) = True"

definition scorer_calls :: "event list \<Rightarrow> event list" where
  "scorer_calls t = filter is_scorer_call t"

definition encoder_calls :: "event list \<Rightarrow> event list" where
  "encoder_calls t = filter (\<lambda>ev. \<not> is_scorer_call ev) t"




text \<open>A float is a number between 0 and 1.\<close>

fun in_unit_interval :: "pyfloat \<Rightarrow> bool" where
  "in_unit_interval (Finite x) = (0 \<le> x \<and> x \<le> 1)"
| "in_unit_interval p = False"

text \<open>
  What clamping to the unit interval is to return: 0 below 0, 1 above 1, the number
  itself in between.
\<close>

fun clamped :: "pyfloat \<Rightarrow> pyfloat" where
  "clamped (Finite x) = Finite (if x < 0 then 0 else if 1 < x then 1 else x)"
| "clamped PosInf = Finite 1"
| "clamped NegInf = Finite 0"
| "clamped NaN = NaN"

section \<open>Example assets\<close>

text \<open>
  Encoders with the codes a label encoder fitted on the form's options assigns (labels in
  sorted order), a classifier over the classes 0 and 1, and the applicant the form shows
  by default.
\<close>

definition demo_sex_encoder :: label_encoder where
  "demo_sex_encoder = [''female'' \<mapsto> 0, ''male'' \<mapsto> 1]"

definition demo_housing_encoder :: label_encoder where
  "demo_housing_encoder = [''free'' \<mapsto> 0, ''own'' \<mapsto> 1, ''rent'' \<mapsto> 2]"

definition demo_saving_encoder :: label_encoder where
  "demo_saving_encoder =
     [''little'' \<mapsto> 0, ''moderate'' \<mapsto> 1, ''quite rich'' \<mapsto> 2, ''rich'' \<mapsto> 3]"

definition demo_checking_encoder :: label_encoder where
  "demo_checking_encoder = [''little'' \<mapsto> 0, ''moderate'' \<mapsto> 1, ''rich'' \<mapsto> 2]"

definition demo_encoders :: encoder_bank where
  "demo_encoders =
     [''Sex'' \<mapsto> demo_sex_encoder,
      ''Housing'' \<mapsto> demo_housing_encoder,
      ''Saving accounts'' \<mapsto> demo_saving_encoder,
      ''Checking account'' \<mapsto> demo_checking_encoder]"

definition demo_applicant :: applicant where
  "demo_applicant =
     \<lparr>age = 30, sex = ''male'', job = 1, housing = ''own'', saving_accounts = ''little'',
      checking_account = ''little'', credit_amount = 1000, duration = 12\<rparr>"

definition demo_df :: dataframe where
  "demo_df =
     [(''Age'', [30]), (''Sex'', [1]), (''Job'', [1]), (''Housing'', [1]),
      (''Saving accounts'', [0]), (''Checking account'', [0]),
      (''Credit amount'', [1000]), (''Duration'', [12])]"

definition demo_scorer :: scorer where
  "demo_scorer =
     \<lparr>predict = (\<lambda>df. Inr 1),
      predict_proba = Some (\<lambda>df. Inr [Finite (1 / 4), Finite (3 / 4)]),
      classes = [0, 1]\<rparr>"


definition other_labels_scorer :: scorer where
  "other_labels_scorer =
     \<lparr>predict = (\<lambda>df. Inr 2),
      predict_proba = Some (\<lambda>df. Inr [Finite (1 / 4), Finite (3 / 4)]),
      classes = [0, 2]\<rparr>"

definition unnormalised_scorer :: scorer where
  "unnormalised_scorer =
     \<lparr>predict = (\<lambda>df. Inr 1),
      predict_proba = Some (\<lambda>df. Inr [Finite (- 1 / 2), Finite (3 / 2)]),
      classes = [0, 1]\<rparr>"


definition nan_scorer :: scorer where
  "nan_scorer =
     \<lparr>predict = (\<lambda>df. Inr 1),
      predict_proba = Some (\<lambda>df. Inr [Finite 0, NaN]),
      classes = [0, 1]\<rparr>"

text \<open>
  An arithmetic for the examples: exact on numbers, with the IEEE-754 rules for the
  infinities and NaN. The examples use numbers on which the double operations are exact
  as well.
\<close>

fun exact_sub :: "pyfloat \<Rightarrow> pyfloat \<Rightarrow> pyfloat" where
  "exact_sub NaN b = NaN"
| "exact_sub a NaN = NaN"
| "exact_sub (Finite x) (Finite y) = Finite (x - y)"
| "exact_sub (Finite x) PosInf = NegInf"
| "exact_sub (Finite x) NegInf = PosInf"
| "exact_sub PosInf PosInf = NaN"
| "exact_sub PosInf b = PosInf"
| "exact_sub NegInf NegInf = NaN"
| "exact_sub NegInf b = NegInf"

fun exact_mul :: "pyfloat \<Rightarrow> pyfloat \<Rightarrow> pyfloat" where
  "exact_mul NaN b = NaN"
| "exact_mul a NaN = NaN"
| "exact_mul (Finite x) (Finite y) = Finite (x * y)"
| "exact_mul (Finite x) PosInf = (if x = 0 then NaN else if 0 < x then PosInf else NegInf)"
| "exact_mul (Finite x) NegInf = (if x = 0 then NaN else if 0 < x then NegInf else PosInf)"
| "exact_mul PosInf (Finite y) = (if y = 0 then NaN else if 0 < y then PosInf else NegInf)"
| "exact_mul NegInf (Finite y) = (if y = 0 then NaN else if 0 < y then NegInf else PosInf)"
| "exact_mul PosInf PosInf = PosInf"
| "exact_mul PosInf NegInf = NegInf"
| "exact_mul NegInf PosInf = NegInf"
| "exact_mul NegInf NegInf = PosInf"

definition exact_arith :: float_arith where
  "exact_arith = \<lparr>float_sub = exact_sub, float_mul = exact_mul\<rparr>"

text \<open>An applicant with a label that no encoder knows.\<close>

definition boat_applicant :: applicant where
  "boat_applicant = demo_applicant\<lparr>housing := ''boat''\<rparr>"

text \<open>The asset files as \<^verbatim>\<open>joblib.load\<close> sees them.\<close>

definition demo_load_model :: "string \<Rightarrow> error + scorer" where
  "demo_load_model file =
     (if file = ''extra_trees_credit_modelo.pkl'' then Inr demo_scorer
      else Inl AssetLoadFailure)"

definition demo_load_encoder :: "string \<Rightarrow> error + label_encoder" where
  "demo_load_encoder file =
     (if file = ''Sex_encoder.pkl'' then Inr demo_sex_encoder
      else if file = ''Housing_encoder.pkl'' then Inr demo_housing_encoder
      else if file = ''Saving accounts_encoder.pkl'' then Inr demo_saving_encoder
      else if file = ''Checking account_encoder.pkl'' then Inr demo_checking_encoder
      else Inl AssetLoadFailure)"

section \<open>Sequencing\<close>

lemma and_then_Inl [simp]: "and_then (t, Inl e) f = (t, Inl e)"
  by (simp add: and_then_def)

lemma and_then_Inr [simp]: "and_then (t, Inr x) f = (t @ fst (f x), snd (f x))"
  by (simp add: and_then_def split: prod.splits)

lemma and_then_return [simp]: "and_then (return x) f = f x"
  by (simp add: return_def)

lemma snd_and_then_Inr:
  "snd (and_then m f) = Inr y \<longleftrightarrow> (\<exists>x. snd m = Inr x \<and> snd (f x) = Inr y)"
  by (cases m; cases "snd m") (auto simp: and_then_def split: prod.splits)

section \<open>Feature assembly: properties\<close>

lemma encode_known:
  "code_of encoders col v = Some c \<Longrightarrow> encode encoders col v = ([Transform col v], Inr c)"
  by (auto simp: code_of_def encode_def transform_def split: option.splits)

lemma encode_Inr:
  "snd (encode encoders col v) = Inr c \<Longrightarrow> code_of encoders col v = Some c"
  by (auto simp: code_of_def encode_def transform_def raise_def split: option.splits)

lemma in_vocabulary_code:
  "in_vocabulary encoders col v \<Longrightarrow> \<exists>c. code_of encoders col v = Some c"
  by (auto simp: in_vocabulary_def code_of_def split: option.splits)

lemma input_df_known:
  assumes "code_of encoders ''Sex'' (sex a) = Some s"
    and "code_of encoders ''Housing'' (housing a) = Some h"
    and "code_of encoders ''Saving accounts'' (saving_accounts a) = Some sv"
    and "code_of encoders ''Checking account'' (checking_account a) = Some c"
  shows "input_df encoders a =
    ([Transform ''Sex'' (sex a), Transform ''Housing'' (housing a),
      Transform ''Saving accounts'' (saving_accounts a),
      Transform ''Checking account'' (checking_account a)],
     Inr [(''Age'', [age a]), (''Sex'', [s]), (''Job'', [job a]), (''Housing'', [h]),
          (''Saving accounts'', [sv]), (''Checking account'', [c]),
          (''Credit amount'', [credit_amount a]), (''Duration'', [duration a])])"
  using assms by (simp add: input_df_def encode_known return_def)

lemma input_df_Inr:
  assumes "snd (input_df encoders a) = Inr df"
  shows "\<exists>s h sv c.
     code_of encoders ''Sex'' (sex a) = Some s \<and>
     code_of encoders ''Housing'' (housing a) = Some h \<and>
     code_of encoders ''Saving accounts'' (saving_accounts a) = Some sv \<and>
     code_of encoders ''Checking account'' (checking_account a) = Some c"
  using assms unfolding input_df_def snd_and_then_Inr
  by (auto dest!: encode_Inr)

lemma demo_codes:
  "code_of demo_encoders ''Sex'' ''male'' = Some 1"
  "code_of demo_encoders ''Housing'' ''own'' = Some 1"
  "code_of demo_encoders ''Saving accounts'' ''little'' = Some 0"
  "code_of demo_encoders ''Checking account'' ''little'' = Some 0"
  by (simp_all add: code_of_def demo_encoders_def demo_sex_encoder_def
      demo_housing_encoder_def demo_saving_encoder_def demo_checking_encoder_def)

lemma demo_valid: "valid_applicant demo_applicant"
  by (simp add: valid_applicant_def demo_applicant_def sex_options_def housing_options_def
      saving_options_def checking_options_def)

lemma demo_fitted: "fitted_on_form demo_encoders"
  by (simp add: fitted_on_form_def in_vocabulary_def demo_encoders_def sex_options_def
      housing_options_def saving_options_def checking_options_def demo_sex_encoder_def
      demo_housing_encoder_def demo_saving_encoder_def demo_checking_encoder_def)

lemma demo_input_df:
  "input_df demo_encoders demo_applicant =
     ([Transform ''Sex'' ''male'', Transform ''Housing'' ''own'',
       Transform ''Saving accounts'' ''little'', Transform ''Checking account'' ''little''],
      Inr demo_df)"
  using input_df_known [of demo_encoders demo_applicant 1 1 0 0]
  by (simp add: demo_codes demo_applicant_def demo_df_def)

text \<open>
  C1. For every applicant within the form's domains, and encoders fitted on the form's
  options, feature assembly returns a frame of exactly eight columns, one row each, named
  and ordered Age, Sex, Job, Housing, Saving accounts, Checking account, Credit amount,
  Duration; the four categorical cells hold the codes of their encoders and the four
  numeric cells the submitted numbers.
\<close>

theorem feature_assembly_valid:
  assumes "valid_applicant a" and "fitted_on_form encoders"
  shows "\<exists>s h sv c df.
     code_of encoders ''Sex'' (sex a) = Some s \<and>
     code_of encoders ''Housing'' (housing a) = Some h \<and>
     code_of encoders ''Saving accounts'' (saving_accounts a) = Some sv \<and>
     code_of encoders ''Checking account'' (checking_account a) = Some c \<and>
     snd (input_df encoders a) = Inr df \<and>
     df = [(''Age'', [age a]), (''Sex'', [s]), (''Job'', [job a]), (''Housing'', [h]),
           (''Saving accounts'', [sv]), (''Checking account'', [c]),
           (''Credit amount'', [credit_amount a]), (''Duration'', [duration a])] \<and>
     length df = 8 \<and>
     map fst df = [''Age'', ''Sex'', ''Job'', ''Housing'', ''Saving accounts'',
                   ''Checking account'', ''Credit amount'', ''Duration''] \<and>
     list_all (\<lambda>column. length (snd column) = 1) df"
proof -
  have "in_vocabulary encoders ''Sex'' (sex a)"
    using assms by (simp add: valid_applicant_def fitted_on_form_def list_all_iff)
  then obtain s where s: "code_of encoders ''Sex'' (sex a) = Some s"
    using in_vocabulary_code by blast
  have "in_vocabulary encoders ''Housing'' (housing a)"
    using assms by (simp add: valid_applicant_def fitted_on_form_def list_all_iff)
  then obtain h where h: "code_of encoders ''Housing'' (housing a) = Some h"
    using in_vocabulary_code by blast
  have "in_vocabulary encoders ''Saving accounts'' (saving_accounts a)"
    using assms by (simp add: valid_applicant_def fitted_on_form_def list_all_iff)
  then obtain sv where sv: "code_of encoders ''Saving accounts'' (saving_accounts a) = Some sv"
    using in_vocabulary_code by blast
  have "in_vocabulary encoders ''Checking account'' (checking_account a)"
    using assms by (simp add: valid_applicant_def fitted_on_form_def list_all_iff)
  then obtain c where c: "code_of encoders ''Checking account'' (checking_account a) = Some c"
    using in_vocabulary_code by blast
  show ?thesis
    using s h sv c input_df_known [OF s h sv c] by simp
qed

theorem feature_assembly_valid_witness:
  "valid_applicant demo_applicant \<and> fitted_on_form demo_encoders \<and>
   snd (input_df demo_encoders demo_applicant) =
     Inr [(''Age'', [30]), (''Sex'', [1]), (''Job'', [1]), (''Housing'', [1]),
          (''Saving accounts'', [0]), (''Checking account'', [0]),
          (''Credit amount'', [1000]), (''Duration'', [12])]"
  using feature_assembly_valid [OF demo_valid demo_fitted] demo_valid demo_fitted
  by (auto simp: demo_codes demo_applicant_def)

section \<open>Inference, interpretation and display: properties\<close>

lemma verdict_of_GOOD [simp]: "verdict_of l = GOOD \<longleftrightarrow> l = 1"
  by (simp add: verdict_of_def)

lemma verdict_of_BAD [simp]: "verdict_of l = BAD \<longleftrightarrow> l \<noteq> 1"
  by (simp add: verdict_of_def)


lemma good_entry_absent: "1 \<notin> set cs \<Longrightarrow> good_entry cs proba = Inr None"
  by (simp add: good_entry_def)

lemma probabilities_some:
  "predict_proba m = Some f \<Longrightarrow> f df = Inr proba \<Longrightarrow>
     probabilities fl m df =
       ([PredictProba df],
        case good_entry (classes m) proba of
          Inl e \<Rightarrow> Inl e
        | Inr None \<Rightarrow> Inr (None, None)
        | Inr (Some g) \<Rightarrow> Inr (Some g, Some (float_sub fl (Finite 1) g)))"
  by (simp add: probabilities_def return_def raise_def split: sum.splits option.splits)

lemma infer_predicted:
  "predict m df = Inr l \<Longrightarrow>
     infer fl m df =
       (Predict df # fst (probabilities fl m df),
        case snd (probabilities fl m df) of
          Inl e \<Rightarrow> Inl e
        | Inr (g, b) \<Rightarrow> Inr \<lparr>pred = l, proba_good = g, proba_bad = b\<rparr>)"
  by (cases "probabilities fl m df"; cases "snd (probabilities fl m df)")
     (auto simp: infer_def return_def split: prod.splits)

lemma infer_Inr:
  "snd (infer fl m df) = Inr s \<Longrightarrow> \<exists>l. predict m df = Inr l \<and> pred s = l"
  unfolding infer_def snd_and_then_Inr by (auto simp: return_def split: prod.splits)

lemma on_submit_assembled:
  "input_df encoders a = (t, Inr df) \<Longrightarrow>
     on_submit fl m encoders a =
       (t @ fst (infer fl m df),
        case snd (infer fl m df) of Inl e \<Rightarrow> Inl e | Inr s \<Rightarrow> Inr (s, display fl a df s))"
  by (cases "infer fl m df"; cases "snd (infer fl m df)") (auto simp: on_submit_def return_def)

lemma on_submit_Inr:
  assumes "snd (on_submit fl m encoders a) = Inr (s, p)"
  shows "\<exists>df. snd (input_df encoders a) = Inr df \<and> snd (infer fl m df) = Inr s \<and>
     p = display fl a df s"
  using assms unfolding on_submit_def snd_and_then_Inr by (auto simp: return_def)

text \<open>
  C2. Whenever a submitted form is carried through to the display and \<^verbatim>\<open>predict\<close>
  returned the label \<open>l\<close>, the verdict shown is GOOD if and only if \<open>l\<close> is the integer 1,
  and BAD for every other label.
\<close>

theorem verdict_good_iff_label:
  assumes "snd (input_df encoders a) = Inr df" and "predict m df = Inr l"
    and "snd (on_submit fl m encoders a) = Inr (s, p)"
  shows "(verdict p = GOOD \<longleftrightarrow> l = 1) \<and> (l \<noteq> 1 \<longrightarrow> verdict p = BAD)"
  using assms by (auto dest!: on_submit_Inr infer_Inr simp: display_def)

lemma demo_infer:
  "infer exact_arith demo_scorer demo_df =
     ([Predict demo_df, PredictProba demo_df],
      Inr \<lparr>pred = 1, proba_good = Some (Finite (3 / 4)),
           proba_bad = Some (Finite (1 / 4))\<rparr>)"
  by (simp add: infer_def probabilities_def demo_scorer_def good_entry_def getitem_def
      return_def exact_arith_def)

lemma demo_on_submit:
  "on_submit exact_arith demo_scorer demo_encoders demo_applicant =
     ([Transform ''Sex'' ''male'', Transform ''Housing'' ''own'',
       Transform ''Saving accounts'' ''little'', Transform ''Checking account'' ''little'',
       Predict demo_df, PredictProba demo_df],
      Inr (\<lparr>pred = 1, proba_good = Some (Finite (3 / 4)),
            proba_bad = Some (Finite (1 / 4))\<rparr>,
           \<lparr>verdict = GOOD, credit_metric = 1000, duration_metric = 12,
            good_percent = Some (Finite 75), progress = Some (Finite (3 / 4)),
            encoded_input = demo_df\<rparr>))"
  unfolding on_submit_assembled [OF demo_input_df] demo_infer
  by (simp add: display_def clamp01_def py_max_def py_min_def exact_arith_def
      demo_applicant_def)

theorem verdict_good_iff_label_witness:
  "snd (input_df demo_encoders demo_applicant) = Inr demo_df \<and>
   predict demo_scorer demo_df = Inr 1 \<and>
   verdict (snd (projr (snd (on_submit exact_arith demo_scorer demo_encoders demo_applicant)))) = GOOD"
proof -
  have df: "snd (input_df demo_encoders demo_applicant) = Inr demo_df"
    by (simp add: demo_input_df)
  have l: "predict demo_scorer demo_df = Inr 1"
    by (simp add: demo_scorer_def)
  obtain s p where r: "snd (on_submit exact_arith demo_scorer demo_encoders demo_applicant) = Inr (s, p)"
    by (simp add: demo_on_submit)
  show ?thesis
    using verdict_good_iff_label [OF df l r] df l r by simp
qed

lemma encode_cases:
  "encoders col \<noteq> None \<Longrightarrow>
     (\<exists>c. code_of encoders col v = Some c \<and> encode encoders col v = ([Transform col v], Inr c)) \<or>
     (\<not> in_vocabulary encoders col v \<and> encode encoders col v = ([Transform col v], Inl UnknownCategory))"
  by (auto simp: encode_def transform_def code_of_def in_vocabulary_def split: option.splits)

lemma scorer_calls_encode [simp]: "scorer_calls (fst (encode encoders col v)) = []"
  by (simp add: encode_def scorer_calls_def raise_def split: option.splits)

lemma scorer_calls_append [simp]: "scorer_calls (t @ t') = scorer_calls t @ scorer_calls t'"
  by (simp add: scorer_calls_def)

lemma fst_and_then:
  "fst (and_then m f) = (case snd m of Inl e \<Rightarrow> fst m | Inr x \<Rightarrow> fst m @ fst (f x))"
  by (cases m; cases "snd m") (auto simp: and_then_def split: prod.splits)

lemma scorer_calls_input_df: "scorer_calls (fst (input_df encoders a)) = []"
  by (simp add: input_df_def fst_and_then return_def scorer_calls_def[of "[]"] split: sum.splits)

lemma input_df_unseen:
  assumes "has_all_encoders encoders"
    and "\<not> (in_vocabulary encoders ''Sex'' (sex a) \<and>
            in_vocabulary encoders ''Housing'' (housing a) \<and>
            in_vocabulary encoders ''Saving accounts'' (saving_accounts a) \<and>
            in_vocabulary encoders ''Checking account'' (checking_account a))"
  shows "snd (input_df encoders a) = Inl UnknownCategory"
proof -
  have k: "encoders ''Sex'' \<noteq> None" "encoders ''Housing'' \<noteq> None"
    "encoders ''Saving accounts'' \<noteq> None" "encoders ''Checking account'' \<noteq> None"
    using assms(1) by (simp_all add: has_all_encoders_def encoder_cols_def)
  show ?thesis
    using encode_cases [of encoders "''Sex''" "sex a", OF k(1)]
      encode_cases [of encoders "''Housing''" "housing a", OF k(2)]
      encode_cases [of encoders "''Saving accounts''" "saving_accounts a", OF k(3)]
      encode_cases [of encoders "''Checking account''" "checking_account a", OF k(4)]
      assms(2)
    unfolding input_df_def
    by (elim disjE exE conjE) (simp_all add: return_def code_of_def in_vocabulary_def split: option.splits)
qed


lemma input_df_aborts:
  "snd (input_df encoders a) = Inl e \<Longrightarrow>
     on_submit fl m encoders a = (fst (input_df encoders a), Inl e)"
  by (cases "input_df encoders a") (simp add: on_submit_def)

lemma demo_has_all: "has_all_encoders demo_encoders"
  by (simp add: has_all_encoders_def encoder_cols_def demo_encoders_def)

text \<open>
  C3. If one of the four submitted categorical values is outside the vocabulary of its
  encoder, encoding raises UnknownCategory: feature assembly returns the exception and no
  frame, the run makes no call of \<^verbatim>\<open>predict\<close> or \<^verbatim>\<open>predict_proba\<close>, and the request
  ends with the exception instead of a verdict.
\<close>

theorem unknown_category_aborts:
  assumes "has_all_encoders encoders"
    and "\<not> in_vocabulary encoders ''Sex'' (sex a) \<or>
         \<not> in_vocabulary encoders ''Housing'' (housing a) \<or>
         \<not> in_vocabulary encoders ''Saving accounts'' (saving_accounts a) \<or>
         \<not> in_vocabulary encoders ''Checking account'' (checking_account a)"
  shows "snd (input_df encoders a) = Inl UnknownCategory \<and>
         snd (on_submit fl m encoders a) = Inl UnknownCategory \<and>
         scorer_calls (fst (on_submit fl m encoders a)) = [] \<and>
         snd (result_column fl True m encoders a) = Inl UnknownCategory"
proof -
  have df: "snd (input_df encoders a) = Inl UnknownCategory"
    using input_df_unseen [OF assms(1)] assms(2) by blast
  have run: "on_submit fl m encoders a = (fst (input_df encoders a), Inl UnknownCategory)"
    using input_df_aborts [OF df] .
  show ?thesis
    using df by (simp add: run scorer_calls_input_df result_column_def)
qed

theorem unknown_category_aborts_witness:
  "has_all_encoders demo_encoders \<and>
   \<not> in_vocabulary demo_encoders ''Housing'' (housing boat_applicant) \<and>
   snd (input_df demo_encoders boat_applicant) = Inl UnknownCategory \<and>
   snd (on_submit exact_arith demo_scorer demo_encoders boat_applicant) = Inl UnknownCategory \<and>
   scorer_calls (fst (on_submit exact_arith demo_scorer demo_encoders boat_applicant)) = [] \<and>
   snd (result_column exact_arith True demo_scorer demo_encoders boat_applicant) = Inl UnknownCategory"
proof -
  have v: "\<not> in_vocabulary demo_encoders ''Housing'' (housing boat_applicant)"
    by (simp add: in_vocabulary_def demo_encoders_def demo_housing_encoder_def
        boat_applicant_def demo_applicant_def)
  show ?thesis
    using unknown_category_aborts [OF demo_has_all, of boat_applicant exact_arith demo_scorer] v
      demo_has_all
    by blast
qed

lemma on_submit_completes:
  assumes "snd (input_df encoders a) = Inr df" and "predict m df = Inr l"
    and "snd (probabilities fl m df) = Inr (g, b)"
  shows "snd (on_submit fl m encoders a) =
     Inr (\<lparr>pred = l, proba_good = g, proba_bad = b\<rparr>,
          display fl a df \<lparr>pred = l, proba_good = g, proba_bad = b\<rparr>)"
proof -
  obtain t where t: "input_df encoders a = (t, Inr df)"
    using assms(1) by (cases "input_df encoders a") simp
  show ?thesis
    by (simp add: on_submit_assembled [OF t] infer_predicted [OF assms(2)] assms(3))
qed

text \<open>
  C5. If the classifier has \<^verbatim>\<open>predict_proba\<close>, its call returns, and class 1 is not among
  \<^verbatim>\<open>classes_\<close>, then the request completes without an exception, \<^verbatim>\<open>proba_good\<close> and
  \<^verbatim>\<open>proba_bad\<close> are both \<^verbatim>\<open>None\<close>, neither the percentage nor the progress bar is
  shown, and the verdict is the one of the predicted label.
\<close>

theorem good_class_absent_no_probability:
  assumes "snd (input_df encoders a) = Inr df" and "predict m df = Inr l"
    and "predict_proba m = Some f" and "f df = Inr proba" and "1 \<notin> set (classes m)"
  shows "\<exists>s p. snd (on_submit fl m encoders a) = Inr (s, p) \<and>
     proba_good s = None \<and> proba_bad s = None \<and>
     good_percent p = None \<and> progress p = None \<and> verdict p = verdict_of l"
proof -
  have "snd (probabilities fl m df) = Inr (None, None)"
    by (simp add: probabilities_some [OF assms(3,4)] good_entry_absent [OF assms(5)])
  from on_submit_completes [OF assms(1,2) this] show ?thesis
    by (simp add: display_def)
qed

theorem good_class_absent_no_probability_witness:
  "snd (input_df demo_encoders demo_applicant) = Inr demo_df \<and>
   predict other_labels_scorer demo_df = Inr 2 \<and>
   predict_proba other_labels_scorer = Some (\<lambda>df. Inr [Finite (1 / 4), Finite (3 / 4)]) \<and>
   1 \<notin> set (classes other_labels_scorer) \<and>
   (\<exists>s p. snd (on_submit exact_arith other_labels_scorer demo_encoders demo_applicant) = Inr (s, p) \<and>
      proba_good s = None \<and> proba_bad s = None \<and>
      good_percent p = None \<and> progress p = None \<and> verdict p = BAD)"
proof -
  have df: "snd (input_df demo_encoders demo_applicant) = Inr demo_df"
    by (simp add: demo_input_df)
  have l: "predict other_labels_scorer demo_df = Inr 2"
    and f: "predict_proba other_labels_scorer = Some (\<lambda>df. Inr [Finite (1 / 4), Finite (3 / 4)])"
    and c: "1 \<notin> set (classes other_labels_scorer)"
    by (simp_all add: other_labels_scorer_def)
  show ?thesis
    using good_class_absent_no_probability [OF df l f _ c] df l f c
    by (simp add: verdict_of_def)
qed

lemma input_df_columns:
  assumes "snd (input_df encoders a) = Inr df"
  shows "\<exists>s h sv c.
     code_of encoders ''Sex'' (sex a) = Some s \<and>
     code_of encoders ''Housing'' (housing a) = Some h \<and>
     code_of encoders ''Saving accounts'' (saving_accounts a) = Some sv \<and>
     code_of encoders ''Checking account'' (checking_account a) = Some c \<and>
     fst (input_df encoders a) =
       [Transform ''Sex'' (sex a), Transform ''Housing'' (housing a),
        Transform ''Saving accounts'' (saving_accounts a),
        Transform ''Checking account'' (checking_account a)] \<and>
     df = [(''Age'', [age a]), (''Sex'', [s]), (''Job'', [job a]), (''Housing'', [h]),
           (''Saving accounts'', [sv]), (''Checking account'', [c]),
           (''Credit amount'', [credit_amount a]), (''Duration'', [duration a])]"
proof -
  obtain s h sv c where k: "code_of encoders ''Sex'' (sex a) = Some s"
     "code_of encoders ''Housing'' (housing a) = Some h"
     "code_of encoders ''Saving accounts'' (saving_accounts a) = Some sv"
     "code_of encoders ''Checking account'' (checking_account a) = Some c"
    using input_df_Inr [OF assms] by blast
  show ?thesis
    using assms k by (simp add: input_df_known [OF k])
qed

lemma categorical_column:
  assumes "col \<in> set encoder_cols" and "snd (input_df encoders a) = Inr df"
  shows "map_of df col = map_option (\<lambda>c. [c]) (code_of encoders col (field_of col a))"
proof -
  obtain s h sv c where k: "code_of encoders ''Sex'' (sex a) = Some s"
     "code_of encoders ''Housing'' (housing a) = Some h"
     "code_of encoders ''Saving accounts'' (saving_accounts a) = Some sv"
     "code_of encoders ''Checking account'' (checking_account a) = Some c"
     "df = [(''Age'', [age a]), (''Sex'', [s]), (''Job'', [job a]), (''Housing'', [h]),
           (''Saving accounts'', [sv]), (''Checking account'', [c]),
           (''Credit amount'', [credit_amount a]), (''Duration'', [duration a])]"
    using input_df_columns [OF assms(2)] by blast
  show ?thesis
    using assms(1) k(1-4) unfolding k(5) by (auto simp: encoder_cols_def field_of_def)
qed

lemma load_encoders_dom:
  "load_encoders load_encoder cols d = Inr d' \<Longrightarrow> dom d' = dom d \<union> set cols"
  by (induction cols arbitrary: d) (auto split: sum.splits)

lemma load_assets_keys:
  "load_assets load_model load_encoder = Inr (m, encoders) \<Longrightarrow> dom encoders = set encoder_cols"
  by (auto simp: load_assets_def split: sum.splits dest: load_encoders_dom)

lemma load_assets_has_all:
  "load_assets load_model load_encoder = Inr (m, encoders) \<Longrightarrow> has_all_encoders encoders"
  using load_assets_keys [of load_model load_encoder m encoders]
  by (auto simp: has_all_encoders_def list_all_iff)

lemma encoder_calls_append [simp]:
  "encoder_calls (t @ t') = encoder_calls t @ encoder_calls t'"
  by (simp add: encoder_calls_def)

lemma encoder_calls_probabilities: "encoder_calls (fst (probabilities fl m df)) = []"
  by (simp add: probabilities_def fst_and_then return_def raise_def encoder_calls_def
      split: option.splits sum.splits)

lemma fst_infer:
  "\<exists>t. fst (infer fl m df) = Predict df # t \<and> encoder_calls t = []"
proof (cases "predict m df")
  case (Inl e)
  then show ?thesis by (simp add: infer_def encoder_calls_def)
next
  case (Inr l)
  then show ?thesis
    by (simp add: infer_predicted encoder_calls_probabilities)
qed

lemma demo_load_assets:
  "load_assets demo_load_model demo_load_encoder = Inr (demo_scorer, demo_encoders)"
  by (simp add: load_assets_def demo_load_model_def demo_load_encoder_def model_file_def
      encoder_cols_def encoder_file_def demo_encoders_def)

text \<open>
  C6. \<^verbatim>\<open>load_assets\<close> loads four encoders, under the four distinct keys Sex, Housing,
  Saving accounts and Checking account. A request whose frame is assembled makes exactly
  four encoder calls, one per key, each with the value of the field that belongs to the
  key, and all of them before the call of \<^verbatim>\<open>predict\<close>; the four categorical cells hold the
  codes returned.
\<close>

theorem four_categorical_fields:
  assumes "load_assets load_model load_encoder = Inr (m, encoders)"
    and "snd (input_df encoders a) = Inr df"
  shows "dom encoders = set encoder_cols \<and> length encoder_cols = 4 \<and> distinct encoder_cols \<and>
     fst (input_df encoders a) = map (\<lambda>col. Transform col (field_of col a)) encoder_cols \<and>
     list_all (\<lambda>col. map_of df col =
        map_option (\<lambda>c. [c]) (code_of encoders col (field_of col a))) encoder_cols \<and>
     encoder_calls (fst (on_submit fl m encoders a)) = fst (input_df encoders a) \<and>
     (\<exists>t. fst (on_submit fl m encoders a) = fst (input_df encoders a) @ Predict df # t)"
proof -
  have cols: "length encoder_cols = 4" "distinct encoder_cols"
    by (simp_all add: encoder_cols_def)
  have t0: "fst (input_df encoders a) = map (\<lambda>col. Transform col (field_of col a)) encoder_cols"
    using input_df_columns [OF assms(2)] by (auto simp: encoder_cols_def field_of_def)
  have codes: "list_all (\<lambda>col. map_of df col =
        map_option (\<lambda>c. [c]) (code_of encoders col (field_of col a))) encoder_cols"
    using categorical_column [OF _ assms(2)] by (simp add: list_all_iff)
  obtain t where t: "fst (infer fl m df) = Predict df # t" "encoder_calls t = []"
    using fst_infer by blast
  have run: "fst (on_submit fl m encoders a) = fst (input_df encoders a) @ Predict df # t"
    using on_submit_assembled [of encoders a "fst (input_df encoders a)" df fl m] assms(2) t(1)
    by (cases "input_df encoders a") simp
  have enc: "encoder_calls (fst (input_df encoders a)) = fst (input_df encoders a)"
    unfolding t0 by (simp add: encoder_calls_def encoder_cols_def)
  have "encoder_calls (fst (on_submit fl m encoders a)) = fst (input_df encoders a)"
    unfolding run using enc t(2) by (simp add: encoder_calls_def)
  then show ?thesis
    using load_assets_keys [OF assms(1)] cols t0 codes run by blast
qed

theorem four_categorical_fields_witness:
  "load_assets demo_load_model demo_load_encoder = Inr (demo_scorer, demo_encoders) \<and>
   snd (input_df demo_encoders demo_applicant) = Inr demo_df \<and>
   length encoder_cols = 4 \<and>
   encoder_calls (fst (on_submit exact_arith demo_scorer demo_encoders demo_applicant)) =
     [Transform ''Sex'' ''male'', Transform ''Housing'' ''own'',
      Transform ''Saving accounts'' ''little'', Transform ''Checking account'' ''little'']"
proof -
  have df: "snd (input_df demo_encoders demo_applicant) = Inr demo_df"
    by (simp add: demo_input_df)
  show ?thesis
    using four_categorical_fields [OF demo_load_assets df] demo_load_assets df
    by (simp add: demo_input_df)
qed

text \<open>
  There are not six encoders, and the request of the example applicant does not make six
  encoder calls.
\<close>

theorem six_encoders_counterexample:
  "length encoder_cols \<noteq> 6 \<and>
   length (encoder_calls (fst (on_submit exact_arith demo_scorer demo_encoders demo_applicant))) \<noteq> 6"
  by (simp add: encoder_cols_def demo_on_submit encoder_calls_def)

lemma index_first:
  "index cs x = Inr i \<Longrightarrow> i < length cs \<and> cs ! i = x \<and> x \<notin> set (take i cs)"
proof (induction cs arbitrary: i)
  case Nil
  then show ?case by simp
next
  case (Cons y ys)
  show ?case
  proof (cases "y = x")
    case True
    with Cons.prems show ?thesis by simp
  next
    case False
    with Cons.prems obtain j where j: "index ys x = Inr j" "i = Suc j"
      by (auto split: sum.splits)
    with Cons.IH [OF j(1)] False show ?thesis by simp
  qed
qed

lemma good_entry_at:
  assumes "index cs 1 = Inr i" and "i < length proba"
  shows "good_entry cs proba = Inr (Some (proba ! i))"
proof -
  have "1 \<in> set cs"
    using index_first [OF assms(1)] by (metis nth_mem)
  then show ?thesis
    using assms by (simp add: good_entry_def getitem_def)
qed



lemma on_submit_scored:
  assumes "snd (input_df encoders a) = Inr df" and "predict m df = Inr l"
    and "predict_proba m = Some f" and "f df = Inr proba"
    and "index (classes m) 1 = Inr i" and "i < length proba"
  shows "snd (on_submit fl m encoders a) =
     Inr (\<lparr>pred = l, proba_good = Some (proba ! i),
           proba_bad = Some (float_sub fl (Finite 1) (proba ! i))\<rparr>,
          \<lparr>verdict = verdict_of l, credit_metric = credit_amount a,
           duration_metric = duration a,
           good_percent = Some (float_mul fl (proba ! i) (Finite 100)),
           progress = Some (clamp01 (proba ! i)), encoded_input = df\<rparr>)"
proof -
  have "snd (probabilities fl m df) =
      Inr (Some (proba ! i), Some (float_sub fl (Finite 1) (proba ! i)))"
    by (simp add: probabilities_some [OF assms(3,4)] good_entry_at [OF assms(5,6)])
  from on_submit_completes [OF assms(1,2) this] show ?thesis
    by (simp add: display_def)
qed

lemma clamp01_clamped: "p \<noteq> NaN \<Longrightarrow> clamp01 p = clamped p"
  by (cases p) (auto simp: clamp01_def py_max_def py_min_def)






text \<open>
  C8. Whenever a probability is displayed and P(GOOD) is not NaN, the argument of the
  progress bar is a number between 0 and 1, namely P(GOOD) clamped: 0 when P(GOOD) is
  below 0, 1 when it is above 1, and P(GOOD) itself in between.
\<close>

theorem progress_in_unit_interval:
  assumes "snd (input_df encoders a) = Inr df" and "predict m df = Inr l"
    and "predict_proba m = Some f" and "f df = Inr proba"
    and "index (classes m) 1 = Inr i" and "i < length proba" and "proba ! i \<noteq> NaN"
  shows "\<exists>s p v. snd (on_submit fl m encoders a) = Inr (s, p) \<and>
     proba_good s = Some (proba ! i) \<and>
     progress p = Some (Finite v) \<and> 0 \<le> v \<and> v \<le> 1 \<and>
     Finite v = clamped (proba ! i)"
proof -
  obtain v where v: "clamped (proba ! i) = Finite v" "0 \<le> v" "v \<le> 1"
    using assms(7) by (cases "proba ! i") auto
  show ?thesis
    using on_submit_scored [OF assms(1-6), of fl] clamp01_clamped [OF assms(7)] v by simp
qed

theorem progress_in_unit_interval_witness:
  "snd (input_df demo_encoders demo_applicant) = Inr demo_df \<and>
   predict unnormalised_scorer demo_df = Inr 1 \<and>
   predict_proba unnormalised_scorer =
     Some (\<lambda>df. Inr [Finite (- 1 / 2), Finite (3 / 2)]) \<and>
   index (classes unnormalised_scorer) 1 = Inr 1 \<and>
   [Finite (- 1 / 2), Finite (3 / 2)] ! 1 = Finite (3 / 2) \<and>
   (\<exists>s p. snd (on_submit exact_arith unnormalised_scorer demo_encoders demo_applicant) =
        Inr (s, p) \<and>
      proba_good s = Some (Finite (3 / 2)) \<and> progress p = Some (Finite 1))"
proof -
  have df: "snd (input_df demo_encoders demo_applicant) = Inr demo_df"
    by (simp add: demo_input_df)
  have l: "predict unnormalised_scorer demo_df = Inr 1"
    and f: "predict_proba unnormalised_scorer =
      Some (\<lambda>df. Inr [Finite (- 1 / 2), Finite (3 / 2)])"
    and i: "index (classes unnormalised_scorer) 1 = Inr 1"
    by (simp_all add: unnormalised_scorer_def)
  have n: "1 < length [Finite (- 1 / 2), Finite (3 / 2)]"
    and e: "[Finite (- 1 / 2), Finite (3 / 2)] ! 1 \<noteq> NaN"
    by simp_all
  show ?thesis
    using progress_in_unit_interval [OF df l f _ i n e, of exact_arith] df l f i
    by auto
qed

lemma nan_infer:
  "infer exact_arith nan_scorer demo_df =
     ([Predict demo_df, PredictProba demo_df],
      Inr \<lparr>pred = 1, proba_good = Some NaN, proba_bad = Some NaN\<rparr>)"
  by (simp add: infer_def probabilities_def nan_scorer_def good_entry_def
      getitem_def return_def exact_arith_def)

text \<open>
  A classifier whose entry for class 1 is NaN: both comparisons of line 165 are false,
  and the argument of the progress bar is NaN.
\<close>

theorem progress_nan_counterexample:
  "snd (on_submit exact_arith nan_scorer demo_encoders demo_applicant) =
      Inr (\<lparr>pred = 1, proba_good = Some NaN, proba_bad = Some NaN\<rparr>,
           \<lparr>verdict = GOOD, credit_metric = 1000, duration_metric = 12,
            good_percent = Some NaN, progress = Some NaN, encoded_input = demo_df\<rparr>) \<and>
   \<not> in_unit_interval NaN"
  unfolding on_submit_assembled [OF demo_input_df] nan_infer
  by (simp add: display_def clamp01_def py_max_def py_min_def exact_arith_def
      demo_applicant_def)





end
